theory Spec2Isabelle
  imports Complex_Main "HOL-Library.Sublist"
begin

section \<open>Browser performance metrics instrumentation\<close>

text \<open>
  A shallow embedding of \<^verbatim>\<open>packages/tracing/src/browser/metrics.ts\<close>: the class
  \<^verbatim>\<open>MetricsInstrumentation\<close> and the span helpers below it. Mutation of the
  instrumentation object and of the transaction is explicit state passing: every
  function takes the objects it mutates and returns them updated.
\<close>

subsection \<open>JavaScript numbers\<close>

text \<open>
  A JavaScript number is modelled as an exact rational or \<^verbatim>\<open>NaN\<close>. The rounding of
  IEEE doubles and the infinities are not modelled, so no theorem below rewrites one
  arithmetic expression of the code into another: a computed value is stated as the
  expression the code evaluates, or at a concrete input. A value of type
  \<^verbatim>\<open>number | undefined\<close> is a \<open>number option\<close>, \<open>None\<close> being \<^verbatim>\<open>undefined\<close>.
\<close>

datatype number = Num rat | NaN

text \<open>\<^verbatim>\<open>undefined\<close> used in arithmetic converts to \<^verbatim>\<open>NaN\<close>.\<close>

fun to_number :: "number option \<Rightarrow> number" where
  "to_number None = NaN"
| "to_number (Some x) = x"

fun js_add :: "number \<Rightarrow> number \<Rightarrow> number" where
  "js_add (Num a) (Num b) = Num (a + b)"
| "js_add _ _ = NaN"

text \<open>Comparisons with \<^verbatim>\<open>NaN\<close> are false.\<close>

fun js_less :: "number \<Rightarrow> number \<Rightarrow> bool" where
  "js_less (Num a) (Num b) = (a < b)"
| "js_less _ _ = False"

definition js_greater :: "number \<Rightarrow> number \<Rightarrow> bool" where
  "js_greater a b = js_less b a"

text \<open>Truthiness of a number: neither \<^verbatim>\<open>0\<close> nor \<^verbatim>\<open>NaN\<close>; \<^verbatim>\<open>undefined\<close> is falsy.\<close>

fun truthy :: "number option \<Rightarrow> bool" where
  "truthy None = False"
| "truthy (Some NaN) = False"
| "truthy (Some (Num a)) = (a \<noteq> 0)"

text \<open>
  Modelled from the spec: \<^verbatim>\<open>msToSec\<close> is imported from \<^verbatim>\<open>../utils\<close>, which is
  another module; the specification converts platform-relative
  milliseconds to seconds (100 ms is 0.1 s).
\<close>

fun msToSec :: "number \<Rightarrow> number" where
  "msToSec (Num t) = Num (t / 1000)"
| "msToSec NaN = NaN"

subsection \<open>JavaScript strings\<close>

fun starts_with :: "string \<Rightarrow> string \<Rightarrow> bool" where
  "starts_with s [] = True"
| "starts_with [] (p # ps) = False"
| "starts_with (c # cs) (p # ps) = (c = p \<and> starts_with cs ps)"

text \<open>\<^verbatim>\<open>String.prototype.indexOf\<close>: the first position of the pattern, or \<open>-1\<close>.\<close>

fun js_indexOf :: "string \<Rightarrow> string \<Rightarrow> int" where
  "js_indexOf [] pat = (if pat = [] then 0 else - 1)"
| "js_indexOf (c # cs) pat =
     (if starts_with (c # cs) pat then 0
      else (let r = js_indexOf cs pat in if r < 0 then - 1 else r + 1))"

text \<open>
  \<^verbatim>\<open>String.prototype.replace\<close> with a string pattern: only the first occurrence
  is replaced.
\<close>

fun js_replace :: "string \<Rightarrow> string \<Rightarrow> string \<Rightarrow> string" where
  "js_replace [] pat rep = (if pat = [] then rep else [])"
| "js_replace (c # cs) pat rep =
     (if starts_with (c # cs) pat then rep @ drop (length pat) (c # cs)
      else c # js_replace cs pat rep)"

subsection \<open>Data model\<close>

text \<open>
  A performance timeline entry (\<^verbatim>\<open>Record<string, any>\<close>): the fields every entry has,
  and \<open>props\<close> for the numeric fields read by key (\<^verbatim>\<open>loadEventStart\<close>,
  \<^verbatim>\<open>requestStart\<close>, \<^verbatim>\<open>transferSize\<close>, ...); a key outside \<open>dom props\<close>
  is absent from the entry.
\<close>

record entry =
  entryType :: string
  name :: string
  startTime :: number
  duration :: number
  initiatorType :: "string option"
  props :: "string \<rightharpoonup> number"

record spanContext =
  description :: string
  op :: string
  startTimestamp :: "number option"
  endTimestamp :: "number option"
  data :: "(string \<rightharpoonup> number) option"

record browserContext =
  effectiveConnectionType :: "string option"
  deviceMemory :: "number option"
  hardwareConcurrency :: "number option"

text \<open>
  Modelled from the spec: the \<^verbatim>\<open>Transaction\<close> class (\<^verbatim>\<open>../transaction\<close>) is
  another module. The specification gives it an operation kind, a mutable
  start timestamp, named contexts, named measurements and the child spans it owns;
  \<^verbatim>\<open>startChild\<close> creates a child span from a span context, \<^verbatim>\<open>setContexts\<close> and
  \<^verbatim>\<open>setMeasurements\<close> attach a context record and a measurement set. \<open>spans\<close>
  lists the span contexts given to \<^verbatim>\<open>startChild\<close>, in the order of the calls.
\<close>

record transaction =
  tx_op :: string
  tx_startTimestamp :: number
  tx_contexts :: "string \<rightharpoonup> browserContext"
  tx_measurements :: "string \<rightharpoonup> number"
  spans :: "spanContext list"

definition startChild :: "transaction \<Rightarrow> spanContext \<Rightarrow> transaction \<times> spanContext" where
  "startChild transaction ctx = (transaction\<lparr>spans := spans transaction @ [ctx]\<rparr>, ctx)"

definition setContexts :: "transaction \<Rightarrow> (string \<rightharpoonup> browserContext) \<Rightarrow> transaction" where
  "setContexts transaction ctxs = transaction\<lparr>tx_contexts := tx_contexts transaction ++ ctxs\<rparr>"

definition setMeasurements :: "transaction \<Rightarrow> (string \<rightharpoonup> number) \<Rightarrow> transaction" where
  "setMeasurements transaction ms = transaction\<lparr>tx_measurements := ms\<rparr>"

text \<open>The private fields of \<^verbatim>\<open>MetricsInstrumentation\<close>.\<close>

record metricsInstrumentation =
  p_measurements :: "string \<rightharpoonup> number"
  p_browserContext :: browserContext
  p_performanceCursor :: nat

text \<open>
  The host platform, as far as the code reads it. \<open>getEntries = None\<close> is a
  \<^verbatim>\<open>performance\<close> object without the function; \<open>Some es\<close> is the function
  returning the timeline \<open>es\<close>. \<^verbatim>\<open>window\<close>, \<^verbatim>\<open>document\<close> and
  \<^verbatim>\<open>performance\<close> are the fields of the global object, as in a browser.
  \<open>browserPerformanceTimeOrigin\<close> is the constant imported from \<^verbatim>\<open>@sentry/utils\<close>.
\<close>

record networkInformation =
  effectiveType :: "string option"
  rtt :: "number option"
  downlink :: "number option"

record navigator =
  connection :: "networkInformation option"
  nav_deviceMemory :: "number option"
  nav_hardwareConcurrency :: "number option"

record script =
  dataset_entry :: "string option"
  src :: string

record performance =
  getEntries :: "entry list option"
  timeOrigin :: "number option"

record window =
  performance :: "performance option"
  document_scripts :: "script list option"
  location_origin :: string
  window_navigator :: "navigator option"

record platform =
  global :: "window option"
  browserPerformanceTimeOrigin :: "number option"

subsection \<open>Span helpers\<close>

text \<open>
  \<^verbatim>\<open>_startChild\<close>: pulls the transaction's start back to the child's start when
  that is truthy and earlier, then creates the child.
\<close>

definition u_startChild :: "transaction \<Rightarrow> spanContext \<Rightarrow> transaction \<times> spanContext" where
  "u_startChild transaction ctx =
     (let transaction1 =
            (if truthy (startTimestamp ctx)
                \<and> js_greater (tx_startTimestamp transaction) (to_number (startTimestamp ctx))
             then transaction\<lparr>tx_startTimestamp := to_number (startTimestamp ctx)\<rparr>
             else transaction)
      in startChild transaction1 ctx)"

definition addPerformanceNavigationTiming ::
  "transaction \<Rightarrow> entry \<Rightarrow> string \<Rightarrow> number \<Rightarrow> transaction" where
  "addPerformanceNavigationTiming transaction e event timeOrigin' =
     (let end = props e (event @ ''End'');
          start = props e (event @ ''Start'')
      in if \<not> truthy start \<or> \<not> truthy end then transaction
         else fst (u_startChild transaction
                \<lparr>description = event,
                 op = ''browser'',
                 startTimestamp = Some (js_add timeOrigin' (msToSec (to_number start))),
                 endTimestamp = Some (js_add timeOrigin' (msToSec (to_number end))),
                 data = None\<rparr>))"

definition addRequest :: "transaction \<Rightarrow> entry \<Rightarrow> number \<Rightarrow> transaction" where
  "addRequest transaction e timeOrigin' =
     (let transaction1 = fst (u_startChild transaction
            \<lparr>description = ''request'',
             op = ''browser'',
             startTimestamp =
               Some (js_add timeOrigin' (msToSec (to_number (props e ''requestStart'')))),
             endTimestamp =
               Some (js_add timeOrigin' (msToSec (to_number (props e ''responseEnd'')))),
             data = None\<rparr>)
      in fst (u_startChild transaction1
            \<lparr>description = ''response'',
             op = ''browser'',
             startTimestamp =
               Some (js_add timeOrigin' (msToSec (to_number (props e ''responseStart'')))),
             endTimestamp =
               Some (js_add timeOrigin' (msToSec (to_number (props e ''responseEnd'')))),
             data = None\<rparr>))"

definition addNavigationSpans :: "transaction \<Rightarrow> entry \<Rightarrow> number \<Rightarrow> transaction" where
  "addNavigationSpans transaction e timeOrigin' =
     (let t1 = addPerformanceNavigationTiming transaction e ''unloadEvent'' timeOrigin';
          t2 = addPerformanceNavigationTiming t1 e ''domContentLoadedEvent'' timeOrigin';
          t3 = addPerformanceNavigationTiming t2 e ''loadEvent'' timeOrigin';
          t4 = addPerformanceNavigationTiming t3 e ''connect'' timeOrigin';
          t5 = addPerformanceNavigationTiming t4 e ''domainLookup'' timeOrigin'
      in addRequest t5 e timeOrigin')"

definition addMeasureSpans ::
  "transaction \<Rightarrow> entry \<Rightarrow> number \<Rightarrow> number \<Rightarrow> number \<Rightarrow> transaction \<times> number" where
  "addMeasureSpans transaction e startTime' duration' timeOrigin' =
     (let measureStartTimestamp = js_add timeOrigin' startTime';
          measureEndTimestamp = js_add measureStartTimestamp duration'
      in (fst (u_startChild transaction
                \<lparr>description = name e,
                 op = entryType e,
                 startTimestamp = Some measureStartTimestamp,
                 endTimestamp = Some measureEndTimestamp,
                 data = None\<rparr>),
          measureStartTimestamp))"

text \<open>
  \<^verbatim>\<open>addResourceSpans\<close>. An initiator type is truthy when it is present and not
  the empty string.
\<close>

definition addResourceSpans ::
  "transaction \<Rightarrow> entry \<Rightarrow> string \<Rightarrow> number \<Rightarrow> number \<Rightarrow> number
     \<Rightarrow> transaction \<times> number option" where
  "addResourceSpans transaction e resourceName startTime' duration' timeOrigin' =
     (if initiatorType e = Some ''xmlhttprequest'' \<or> initiatorType e = Some ''fetch''
      then (transaction, None)
      else
        (let data0 = Map.empty;
             data1 = (if props e ''transferSize'' \<noteq> None
                      then data0(''Transfer Size'' := props e ''transferSize'') else data0);
             data2 = (if props e ''encodedBodySize'' \<noteq> None
                      then data1(''Encoded Body Size'' := props e ''encodedBodySize'') else data1);
             data3 = (if props e ''decodedBodySize'' \<noteq> None
                      then data2(''Decoded Body Size'' := props e ''decodedBodySize'') else data2);
             startTimestamp' = js_add timeOrigin' startTime';
             endTimestamp' = js_add startTimestamp' duration'
         in (fst (u_startChild transaction
                   \<lparr>description = resourceName,
                    op = (case initiatorType e of
                            None \<Rightarrow> ''resource''
                          | Some t \<Rightarrow> if t = [] then ''resource'' else ''resource.'' @ t),
                    startTimestamp = Some startTimestamp',
                    endTimestamp = Some endTimestamp',
                    data = Some data3\<rparr>),
             Some endTimestamp')))"

subsection \<open>The class \<^verbatim>\<open>MetricsInstrumentation\<close>\<close>

text \<open>
  \<^verbatim>\<open>_trackNavigator\<close>. \<^verbatim>\<open>typeof x === 'number'\<close> holds of every number,
  \<^verbatim>\<open>NaN\<close> included, so it is \<open>x \<noteq> None\<close>; an effective type is truthy when it is
  present and not the empty string.
\<close>

definition trackNavigator :: "window \<Rightarrow> metricsInstrumentation \<Rightarrow> metricsInstrumentation" where
  "trackNavigator w this =
     (let navigator' = window_navigator w;
          connection' = (case navigator' of None \<Rightarrow> None | Some n \<Rightarrow> connection n);
          this1 =
            (case connection' of
               None \<Rightarrow> this
             | Some c \<Rightarrow>
                 (let a = (case effectiveType c of
                             None \<Rightarrow> this
                           | Some t \<Rightarrow>
                               if t = [] then this
                               else this\<lparr>p_browserContext :=
                                      (p_browserContext this)\<lparr>effectiveConnectionType := Some t\<rparr>\<rparr>);
                      b = (case rtt c of
                             None \<Rightarrow> a
                           | Some r \<Rightarrow>
                               a\<lparr>p_measurements := (p_measurements a)(''connection.rtt'' \<mapsto> r)\<rparr>)
                  in (case downlink c of
                        None \<Rightarrow> b
                      | Some d \<Rightarrow>
                          b\<lparr>p_measurements :=
                              (p_measurements b)(''connection.downlink'' \<mapsto> d)\<rparr>)));
          this2 =
            (case (case navigator' of None \<Rightarrow> None | Some n \<Rightarrow> nav_deviceMemory n) of
               None \<Rightarrow> this1
             | Some dm \<Rightarrow>
                 this1\<lparr>p_browserContext := (p_browserContext this1)\<lparr>deviceMemory := Some dm\<rparr>\<rparr>)
      in (case (case navigator' of None \<Rightarrow> None | Some n \<Rightarrow> nav_hardwareConcurrency n) of
            None \<Rightarrow> this2
          | Some hc \<Rightarrow>
              this2\<lparr>p_browserContext :=
                      (p_browserContext this2)\<lparr>hardwareConcurrency := Some hc\<rparr>\<rparr>))"

text \<open>
  The constructor, as far as the instrumentation's own fields go. The mark it puts on
  the platform's timeline and the two subscriptions it starts are effects on the
  platform; the callbacks it subscribes are \<open>trackLCP_callback\<close> and
  \<open>trackFID_callback\<close> below, which the platform may call at any time.
\<close>

definition new_MetricsInstrumentation :: "platform \<Rightarrow> metricsInstrumentation" where
  "new_MetricsInstrumentation p =
     (let this = \<lparr>p_measurements = Map.empty,
                  p_browserContext = \<lparr>effectiveConnectionType = None, deviceMemory = None,
                                      hardwareConcurrency = None\<rparr>,
                  p_performanceCursor = 0\<rparr>
      in (case global p of
            None \<Rightarrow> this
          | Some w \<Rightarrow> (case performance w of None \<Rightarrow> this | Some perf \<Rightarrow> trackNavigator w this)))"

text \<open>
  A web-vital metric: its value and the entries that contributed to it.
  \<^verbatim>\<open>entries.pop()\<close> removes and returns the last entry, \<^verbatim>\<open>undefined\<close> on an
  empty list.
\<close>

record metric =
  metric_value :: number
  metric_entries :: "entry list"

fun pop :: "'a list \<Rightarrow> 'a option \<times> 'a list" where
  "pop [] = (None, [])"
| "pop (x # xs) = (Some (last (x # xs)), butlast (x # xs))"

text \<open>
  The callbacks of \<^verbatim>\<open>_trackLCP\<close> and \<^verbatim>\<open>_trackFID\<close>; \<open>perf\<close> is the global
  \<^verbatim>\<open>performance\<close> object. They return the metric too, whose entry list
  \<^verbatim>\<open>pop\<close> has shortened.
\<close>

definition trackLCP_callback ::
  "performance \<Rightarrow> metric \<Rightarrow> metricsInstrumentation \<Rightarrow> metric \<times> metricsInstrumentation" where
  "trackLCP_callback perf metric' this =
     (case pop (metric_entries metric') of
        (None, rest) \<Rightarrow> (metric'\<lparr>metric_entries := rest\<rparr>, this)
      | (Some e, rest) \<Rightarrow>
          (let timeOrigin' = msToSec (to_number (timeOrigin perf));
               startTime' = msToSec (startTime e)
           in (metric'\<lparr>metric_entries := rest\<rparr>,
               this\<lparr>p_measurements :=
                      (p_measurements this)
                        (''lcp'' \<mapsto> metric_value metric',
                         ''mark.lcp'' \<mapsto> js_add timeOrigin' startTime')\<rparr>)))"

definition trackFID_callback ::
  "performance \<Rightarrow> metric \<Rightarrow> metricsInstrumentation \<Rightarrow> metric \<times> metricsInstrumentation" where
  "trackFID_callback perf metric' this =
     (case pop (metric_entries metric') of
        (None, rest) \<Rightarrow> (metric'\<lparr>metric_entries := rest\<rparr>, this)
      | (Some e, rest) \<Rightarrow>
          (let timeOrigin' = msToSec (to_number (timeOrigin perf));
               startTime' = msToSec (startTime e)
           in (metric'\<lparr>metric_entries := rest\<rparr>,
               this\<lparr>p_measurements :=
                      (p_measurements this)
                        (''fid'' \<mapsto> metric_value metric',
                         ''mark.fid'' \<mapsto> js_add timeOrigin' startTime')\<rparr>)))"

text \<open>
  The loop over \<^verbatim>\<open>document.scripts\<close>: the \<^verbatim>\<open>src\<close> of the first script whose
  \<^verbatim>\<open>data-entry\<close> attribute is \<^verbatim>\<open>'true'\<close>.
\<close>

fun find_entry_script :: "script list \<Rightarrow> string option" where
  "find_entry_script [] = None"
| "find_entry_script (s # ss) =
     (if dataset_entry s = Some ''true'' then Some (src s) else find_entry_script ss)"

text \<open>
  The state the callback of \<^verbatim>\<open>forEach\<close> reads and writes: the transaction, the
  instrumentation, and the two local variables of \<^verbatim>\<open>addPerformanceEntries\<close>.
\<close>

record scan =
  scan_transaction :: transaction
  scan_this :: metricsInstrumentation
  entryScriptStartTimestamp :: "number option"
  tracingInitMarkStartTime :: "number option"

text \<open>\<^verbatim>\<open>entryScriptSrc || ''\<close>.\<close>

fun or_empty :: "string option \<Rightarrow> string" where
  "or_empty None = []"
| "or_empty (Some s) = s"

text \<open>The body of the \<^verbatim>\<open>forEach\<close> callback, for one entry.\<close>

definition forEach_body :: "string \<Rightarrow> number \<Rightarrow> string option \<Rightarrow> entry \<Rightarrow> scan \<Rightarrow> scan" where
  "forEach_body origin timeOrigin' entryScriptSrc e s =
     (let transaction = scan_transaction s;
          startTime' = msToSec (startTime e);
          duration' = msToSec (duration e)
      in if tx_op transaction = ''navigation''
            \<and> js_less (js_add timeOrigin' startTime') (tx_startTimestamp transaction)
         then s
         else if entryType e = ''navigation''
         then s\<lparr>scan_transaction := addNavigationSpans transaction e timeOrigin'\<rparr>
         else if entryType e = ''mark'' \<or> entryType e = ''paint'' \<or> entryType e = ''measure''
         then
           (let (transaction1, startTimestamp') =
                  addMeasureSpans transaction e startTime' duration' timeOrigin';
                tracingInit1 =
                  (if tracingInitMarkStartTime s = None \<and> name e = ''sentry-tracing-init''
                   then Some startTimestamp' else tracingInitMarkStartTime s);
                this = scan_this s;
                this1 =
                  (if name e = ''first-paint''
                   then this\<lparr>p_measurements :=
                          (p_measurements this)
                            (''fp'' \<mapsto> startTime e, ''mark.fp'' \<mapsto> startTimestamp')\<rparr>
                   else this);
                this2 =
                  (if name e = ''first-contentful-paint''
                   then this1\<lparr>p_measurements :=
                          (p_measurements this1)
                            (''fcp'' \<mapsto> startTime e, ''mark.fcp'' \<mapsto> startTimestamp')\<rparr>
                   else this1)
            in s\<lparr>scan_transaction := transaction1, scan_this := this2,
                 tracingInitMarkStartTime := tracingInit1\<rparr>)
         else if entryType e = ''resource''
         then
           (let resourceName = js_replace (name e) origin [];
                (transaction1, endTimestamp') =
                  addResourceSpans transaction e resourceName startTime' duration' timeOrigin';
                entryScript1 =
                  (if entryScriptStartTimestamp s = None
                      \<and> js_indexOf (or_empty entryScriptSrc) resourceName > - 1
                   then endTimestamp' else entryScriptStartTimestamp s)
            in s\<lparr>scan_transaction := transaction1, entryScriptStartTimestamp := entryScript1\<rparr>)
         else s)"

text \<open>\<^verbatim>\<open>Math.max(performance.getEntries().length - 1, 0)\<close>.\<close>

definition next_cursor :: "entry list \<Rightarrow> nat" where
  "next_cursor es = nat (max (int (length es) - 1) 0)"

text \<open>
  The scan of \<^verbatim>\<open>addPerformanceEntries\<close>: \<^verbatim>\<open>forEach\<close> over
  \<^verbatim>\<open>getEntries().slice(cursor)\<close>, which is \<open>drop\<close>, with both local variables
  \<^verbatim>\<open>undefined\<close> at first. \<open>w\<close> is the global object, \<open>es\<close> the result of
  \<^verbatim>\<open>getEntries()\<close>, \<open>timeOrigin'\<close> the time origin in seconds.
\<close>

definition entry_script_src :: "window \<Rightarrow> string option" where
  "entry_script_src w =
     (case document_scripts w of None \<Rightarrow> None | Some scripts \<Rightarrow> find_entry_script scripts)"

definition scan_entries ::
  "window \<Rightarrow> entry list \<Rightarrow> number \<Rightarrow> metricsInstrumentation \<Rightarrow> transaction \<Rightarrow> scan" where
  "scan_entries w es timeOrigin' this transaction =
     fold (forEach_body (location_origin w) timeOrigin' (entry_script_src w))
       (drop (p_performanceCursor this) es)
       \<lparr>scan_transaction = transaction, scan_this = this,
        entryScriptStartTimestamp = None, tracingInitMarkStartTime = None\<rparr>"

text \<open>
  The part of \<^verbatim>\<open>addPerformanceEntries\<close> after the \<^verbatim>\<open>forEach\<close>, from the
  state \<open>s\<close> the scan has left: the \<^verbatim>\<open>evaluation\<close> span, the new cursor, and
  the measurements and contexts of a page load. It calls the \<^verbatim>\<open>forEach\<close> callback
  on no entry.
\<close>

definition finish_entries ::
  "window \<Rightarrow> entry list \<Rightarrow> scan \<Rightarrow> metricsInstrumentation \<times> transaction" where
  "finish_entries w es s =
     (let transaction1 =
            (case (entryScriptStartTimestamp s, tracingInitMarkStartTime s) of
               (Some script_end, Some init_start) \<Rightarrow>
                 fst (u_startChild (scan_transaction s)
                       \<lparr>description = ''evaluation'',
                        op = ''script'',
                        startTimestamp = Some script_end,
                        endTimestamp = Some init_start,
                        data = None\<rparr>)
             | _ \<Rightarrow> scan_transaction s);
          this1 = (scan_this s)\<lparr>p_performanceCursor := next_cursor es\<rparr>
      in if tx_op transaction1 = ''pageload''
         then (let this2 = trackNavigator w this1;
                   transaction2 =
                     setContexts transaction1 [''browser'' \<mapsto> p_browserContext this2]
               in (this2, setMeasurements transaction2 (p_measurements this2)))
         else (this1, transaction1))"

text \<open>
  The part of \<^verbatim>\<open>addPerformanceEntries\<close> after the gatekeeper; \<open>bpto\<close> is the
  truthy \<^verbatim>\<open>browserPerformanceTimeOrigin\<close>.
\<close>

definition project_entries ::
  "window \<Rightarrow> entry list \<Rightarrow> number \<Rightarrow> metricsInstrumentation \<Rightarrow> transaction
     \<Rightarrow> metricsInstrumentation \<times> transaction" where
  "project_entries w es bpto this transaction =
     (let timeOrigin' = msToSec bpto
      in finish_entries w es (scan_entries w es timeOrigin' this transaction))"

text \<open>
  The gatekeeper of \<^verbatim>\<open>addPerformanceEntries\<close>: the global object, its
  \<^verbatim>\<open>performance\<close> object, the \<^verbatim>\<open>getEntries\<close> function and a truthy time
  origin are all there.
\<close>

definition gatekeeper :: "platform \<Rightarrow> bool" where
  "gatekeeper p =
     (case global p of
        None \<Rightarrow> False
      | Some w \<Rightarrow>
          (case performance w of
             None \<Rightarrow> False
           | Some perf \<Rightarrow> getEntries perf \<noteq> None \<and> truthy (browserPerformanceTimeOrigin p)))"

text \<open>
  \<^verbatim>\<open>addPerformanceEntries\<close>: returns the instrumentation and the transaction as
  the call leaves them.
\<close>

definition addPerformanceEntries ::
  "platform \<Rightarrow> metricsInstrumentation \<Rightarrow> transaction \<Rightarrow> metricsInstrumentation \<times> transaction" where
  "addPerformanceEntries p this transaction =
     (case global p of
        None \<Rightarrow> (this, transaction)
      | Some w \<Rightarrow>
          (case performance w of
             None \<Rightarrow> (this, transaction)
           | Some perf \<Rightarrow>
               (case getEntries perf of
                  None \<Rightarrow> (this, transaction)
                | Some es \<Rightarrow>
                    if \<not> truthy (browserPerformanceTimeOrigin p) then (this, transaction)
                    else project_entries w es (to_number (browserPerformanceTimeOrigin p))
                           this transaction)))"

subsection \<open>Properties of a run\<close>

text \<open>
  JavaScript's \<^verbatim>\<open><=\<close> on numbers; false when either side is \<^verbatim>\<open>NaN\<close>.
\<close>

fun js_le :: "number \<Rightarrow> number \<Rightarrow> bool" where
  "js_le (Num a) (Num b) = (a \<le> b)"
| "js_le _ _ = False"

text \<open>
  The transaction's start is a number and is at or before the start of every child span
  whose own start is truthy (a number other than \<^verbatim>\<open>0\<close> and \<^verbatim>\<open>NaN\<close>).
\<close>

definition contains_children :: "transaction \<Rightarrow> bool" where
  "contains_children t =
     (tx_startTimestamp t \<noteq> NaN
      \<and> (\<forall>c \<in> set (spans t).
            truthy (startTimestamp c) \<longrightarrow>
              js_le (tx_startTimestamp t) (to_number (startTimestamp c))))"

text \<open>
  The platform's performance timeline: what \<^verbatim>\<open>performance.getEntries()\<close> returns,
  empty where the function is missing.
\<close>

definition timeline :: "platform \<Rightarrow> entry list" where
  "timeline p =
     (case global p of
        None \<Rightarrow> []
      | Some w \<Rightarrow>
          (case performance w of
             None \<Rightarrow> []
           | Some perf \<Rightarrow> (case getEntries perf of None \<Rightarrow> [] | Some es \<Rightarrow> es)))"

text \<open>
  The timeline positions a call of \<^verbatim>\<open>addPerformanceEntries\<close> hands to the
  \<^verbatim>\<open>forEach\<close> callback: those of \<^verbatim>\<open>slice(cursor)\<close>, none when the gatekeeper
  returns early.
\<close>

definition dispatched_indices :: "platform \<Rightarrow> metricsInstrumentation \<Rightarrow> nat list" where
  "dispatched_indices p this =
     (if gatekeeper p then [p_performanceCursor this ..< length (timeline p)] else [])"

text \<open>
  A sequence of calls of \<^verbatim>\<open>addPerformanceEntries\<close> on one instrumentation, each
  with the platform as it is at that call and the transaction passed. The result lists
  the instrumentation before the first call and after each call.
\<close>

fun run :: "metricsInstrumentation \<Rightarrow> (platform \<times> transaction) list \<Rightarrow> metricsInstrumentation list" where
  "run this [] = [this]"
| "run this ((p, t) # calls) = this # run (fst (addPerformanceEntries p this t)) calls"

text \<open>
  The timeline only grows from call to call: at each call that passes the gatekeeper,
  the timeline read extends the one read before (\<open>prev\<close>).
\<close>

fun append_only :: "entry list \<Rightarrow> platform list \<Rightarrow> bool" where
  "append_only prev [] = True"
| "append_only prev (p # ps) =
     (if gatekeeper p then prefix prev (timeline p) \<and> append_only (timeline p) ps
      else append_only prev ps)"

text \<open>
  The test at the head of the \<^verbatim>\<open>forEach\<close> callback: for a navigation
  transaction, an entry that starts before the transaction as it then stands is
  skipped.
\<close>

definition skipped :: "number \<Rightarrow> entry \<Rightarrow> scan \<Rightarrow> bool" where
  "skipped timeOrigin' e s =
     (tx_op (scan_transaction s) = ''navigation''
      \<and> js_less (js_add timeOrigin' (msToSec (startTime e)))
            (tx_startTimestamp (scan_transaction s)))"

text \<open>
  The entry is dispatched and is a mark, paint or measure entry named
  \<^verbatim>\<open>sentry-tracing-init\<close>.
\<close>

definition tracing_init_mark :: "number \<Rightarrow> entry \<Rightarrow> scan \<Rightarrow> bool" where
  "tracing_init_mark timeOrigin' e s =
     (\<not> skipped timeOrigin' e s
      \<and> (entryType e = ''mark'' \<or> entryType e = ''paint'' \<or> entryType e = ''measure'')
      \<and> name e = ''sentry-tracing-init'')"

text \<open>
  The entry is dispatched, is a resource entry whose name without the origin occurs in
  the entry script's source, and was fetched neither by \<^verbatim>\<open>xmlhttprequest\<close> nor by
  \<^verbatim>\<open>fetch\<close>.
\<close>

definition entry_script_resource ::
  "string \<Rightarrow> number \<Rightarrow> string option \<Rightarrow> entry \<Rightarrow> scan \<Rightarrow> bool" where
  "entry_script_resource origin timeOrigin' entryScriptSrc e s =
     (\<not> skipped timeOrigin' e s
      \<and> entryType e = ''resource''
      \<and> js_indexOf (or_empty entryScriptSrc) (js_replace (name e) origin []) > - 1
      \<and> initiatorType e \<noteq> Some ''xmlhttprequest'' \<and> initiatorType e \<noteq> Some ''fetch'')"

subsection \<open>Example values\<close>

text \<open>
  Concrete inputs at which the theorems below are instantiated. The example page is
  served from \<^verbatim>\<open>https://example.com\<close>, its entry script is \<^verbatim>\<open>/app.js\<close>, and its
  time origin is 1000000 ms, that is 1000 s.
\<close>

definition example_transaction :: "string \<Rightarrow> rat \<Rightarrow> transaction" where
  "example_transaction kind start =
     \<lparr>tx_op = kind, tx_startTimestamp = Num start, tx_contexts = Map.empty,
      tx_measurements = Map.empty, spans = []\<rparr>"

definition example_entry :: "string \<Rightarrow> string \<Rightarrow> rat \<Rightarrow> rat \<Rightarrow> entry" where
  "example_entry type nm start dur =
     \<lparr>entryType = type, name = nm, startTime = Num start, duration = Num dur,
      initiatorType = None, props = Map.empty\<rparr>"

definition example_window :: "entry list \<Rightarrow> window" where
  "example_window es =
     \<lparr>performance = Some \<lparr>getEntries = Some es, timeOrigin = Some (Num 1000000)\<rparr>,
      document_scripts = Some [\<lparr>dataset_entry = Some ''true'', src = ''https://example.com/app.js''\<rparr>],
      location_origin = ''https://example.com'',
      window_navigator = None\<rparr>"

definition example_platform :: "entry list \<Rightarrow> platform" where
  "example_platform es =
     \<lparr>global = Some (example_window es), browserPerformanceTimeOrigin = Some (Num 1000000)\<rparr>"

definition no_platform :: platform where
  "no_platform = \<lparr>global = None, browserPerformanceTimeOrigin = None\<rparr>"

definition example_instrumentation :: metricsInstrumentation where
  "example_instrumentation =
     \<lparr>p_measurements = [''lcp'' \<mapsto> Num 2500],
      p_browserContext = \<lparr>effectiveConnectionType = None, deviceMemory = Some (Num 8),
                          hardwareConcurrency = None\<rparr>,
      p_performanceCursor = 0\<rparr>"


definition example_fetch :: entry where
  "example_fetch =
     (example_entry ''resource'' ''https://example.com/app.js'' 5 2)
       \<lparr>initiatorType := Some ''fetch''\<rparr>"

definition example_script :: entry where
  "example_script =
     (example_entry ''resource'' ''https://example.com/app.js'' 10 5)
       \<lparr>initiatorType := Some ''script''\<rparr>"

definition example_scan :: scan where
  "example_scan =
     \<lparr>scan_transaction = example_transaction ''pageload'' 2000,
      scan_this = example_instrumentation,
      entryScriptStartTimestamp = None, tracingInitMarkStartTime = None\<rparr>"

definition example_calls :: "(platform \<times> transaction) list" where
  "example_calls =
     [(example_platform [example_entry ''mark'' ''sentry-tracing-init'' 10 0],
       example_transaction ''pageload'' 2000),
      (no_platform, example_transaction ''navigation'' 2001),
      (example_platform [example_entry ''mark'' ''sentry-tracing-init'' 10 0,
                         example_entry ''paint'' ''first-paint'' 234 0,
                         example_entry ''measure'' ''app-ready'' 300 40],
       example_transaction ''navigation'' 2002)]"

definition example_marks :: "entry list" where
  "example_marks =
     [example_fetch, example_entry ''mark'' ''sentry-tracing-init'' 20 0,
      example_entry ''mark'' ''sentry-tracing-init'' 30 0]"

definition example_resources :: "entry list" where
  "example_resources =
     [example_fetch, example_script,
      (example_entry ''resource'' ''https://example.com/app.js'' 40 5)
        \<lparr>initiatorType := Some ''script''\<rparr>]"

lemmas examples =
  example_transaction_def example_entry_def example_window_def example_platform_def
  no_platform_def example_instrumentation_def

lemmas model_defs =
  addPerformanceEntries_def project_entries_def finish_entries_def scan_entries_def
  entry_script_src_def
  forEach_body_def addNavigationSpans_def addPerformanceNavigationTiming_def addRequest_def
  addMeasureSpans_def addResourceSpans_def u_startChild_def startChild_def
  setContexts_def setMeasurements_def trackNavigator_def next_cursor_def js_greater_def
  Let_def

subsection \<open>What the span helpers leave alone\<close>

lemma u_startChild_spans: "spans (fst (u_startChild t c)) = spans t @ [c]"
  by (simp add: u_startChild_def startChild_def Let_def)

lemma u_startChild_frame:
  "tx_op (fst (u_startChild t c)) = tx_op t"
  "tx_contexts (fst (u_startChild t c)) = tx_contexts t"
  "tx_measurements (fst (u_startChild t c)) = tx_measurements t"
  by (simp_all add: u_startChild_def startChild_def Let_def)

lemma addPerformanceNavigationTiming_frame:
  "tx_op (addPerformanceNavigationTiming t e ev to) = tx_op t"
  "tx_contexts (addPerformanceNavigationTiming t e ev to) = tx_contexts t"
  "tx_measurements (addPerformanceNavigationTiming t e ev to) = tx_measurements t"
  by (simp_all add: addPerformanceNavigationTiming_def Let_def u_startChild_frame)

lemma addRequest_frame:
  "tx_op (addRequest t e to) = tx_op t"
  "tx_contexts (addRequest t e to) = tx_contexts t"
  "tx_measurements (addRequest t e to) = tx_measurements t"
  by (simp_all add: addRequest_def Let_def u_startChild_frame)

lemma addNavigationSpans_frame:
  "tx_op (addNavigationSpans t e to) = tx_op t"
  "tx_contexts (addNavigationSpans t e to) = tx_contexts t"
  "tx_measurements (addNavigationSpans t e to) = tx_measurements t"
  by (simp_all add: addNavigationSpans_def Let_def addRequest_frame
        addPerformanceNavigationTiming_frame)

lemma addMeasureSpans_frame:
  "tx_op (fst (addMeasureSpans t e st d to)) = tx_op t"
  "tx_contexts (fst (addMeasureSpans t e st d to)) = tx_contexts t"
  "tx_measurements (fst (addMeasureSpans t e st d to)) = tx_measurements t"
  by (simp_all add: addMeasureSpans_def Let_def u_startChild_frame)

lemma addResourceSpans_frame:
  "tx_op (fst (addResourceSpans t e r st d to)) = tx_op t"
  "tx_contexts (fst (addResourceSpans t e r st d to)) = tx_contexts t"
  "tx_measurements (fst (addResourceSpans t e r st d to)) = tx_measurements t"
  by (simp_all add: addResourceSpans_def Let_def u_startChild_frame)

lemma forEach_body_frame:
  "tx_op (scan_transaction (forEach_body origin to ess e s)) = tx_op (scan_transaction s)"
  "tx_contexts (scan_transaction (forEach_body origin to ess e s))
     = tx_contexts (scan_transaction s)"
  "tx_measurements (scan_transaction (forEach_body origin to ess e s))
     = tx_measurements (scan_transaction s)"
  by (simp_all add: forEach_body_def Let_def split_beta addNavigationSpans_frame
        addMeasureSpans_frame addResourceSpans_frame)

lemma forEach_body_cursor:
  "p_performanceCursor (scan_this (forEach_body origin to ess e s))
     = p_performanceCursor (scan_this s)"
  by (simp add: forEach_body_def Let_def split_beta)

lemma fold_forEach_body_frame:
  "tx_op (scan_transaction (fold (forEach_body origin to ess) es s))
     = tx_op (scan_transaction s)
   \<and> tx_contexts (scan_transaction (fold (forEach_body origin to ess) es s))
     = tx_contexts (scan_transaction s)
   \<and> tx_measurements (scan_transaction (fold (forEach_body origin to ess) es s))
     = tx_measurements (scan_transaction s)"
  by (induction es arbitrary: s) (simp_all add: forEach_body_frame)

lemma trackNavigator_cursor:
  "p_performanceCursor (trackNavigator w this) = p_performanceCursor this"
  by (simp add: trackNavigator_def Let_def split: option.splits)

lemma project_entries_cursor:
  "p_performanceCursor (fst (project_entries w es bpto this t)) = next_cursor es"
  by (simp add: project_entries_def finish_entries_def Let_def trackNavigator_cursor)

lemma project_entries_pageload:
  assumes "tx_op t = ''pageload''"
  shows "tx_measurements (snd (project_entries w es bpto this t))
           = p_measurements (fst (project_entries w es bpto this t))"
    and "tx_contexts (snd (project_entries w es bpto this t))
           = (tx_contexts t)(''browser'' \<mapsto> p_browserContext (fst (project_entries w es bpto this t)))"
  using assms
  by (simp_all add: project_entries_def finish_entries_def scan_entries_def Let_def setContexts_def
        setMeasurements_def fold_forEach_body_frame u_startChild_frame split: option.splits prod.splits)

lemma project_entries_other:
  assumes "tx_op t \<noteq> ''pageload''"
  shows "tx_measurements (snd (project_entries w es bpto this t)) = tx_measurements t"
    and "tx_contexts (snd (project_entries w es bpto this t)) = tx_contexts t"
  using assms
  by (simp_all add: project_entries_def finish_entries_def scan_entries_def Let_def
        fold_forEach_body_frame u_startChild_frame split: option.splits prod.splits)

lemma addPerformanceEntries_gatekeeper:
  "gatekeeper p \<Longrightarrow>
     \<exists>w perf es. global p = Some w \<and> performance w = Some perf \<and> getEntries perf = Some es
       \<and> addPerformanceEntries p this t
           = project_entries w es (to_number (browserPerformanceTimeOrigin p)) this t"
  by (auto simp add: gatekeeper_def addPerformanceEntries_def split: option.splits)

lemma addPerformanceEntries_no_gatekeeper:
  "\<not> gatekeeper p \<Longrightarrow> addPerformanceEntries p this t = (this, t)"
  by (auto simp add: gatekeeper_def addPerformanceEntries_def split: option.splits)

subsection \<open>The spans each helper adds\<close>



lemma project_entries_spans:
  "spans (snd (project_entries w es bpto this t))
     = spans (scan_transaction (scan_entries w es (msToSec bpto) this t))
       @ (case entryScriptStartTimestamp (scan_entries w es (msToSec bpto) this t) of
            None \<Rightarrow> []
          | Some script_end \<Rightarrow>
              (case tracingInitMarkStartTime (scan_entries w es (msToSec bpto) this t) of
                 None \<Rightarrow> []
               | Some init_start \<Rightarrow>
                   [\<lparr>description = ''evaluation'', op = ''script'',
                     startTimestamp = Some script_end, endTimestamp = Some init_start,
                     data = None\<rparr>]))"
  by (simp add: project_entries_def finish_entries_def Let_def setContexts_def setMeasurements_def
        u_startChild_spans split: option.splits)

subsection \<open>The cursor\<close>

lemma next_cursor_length: "next_cursor es = length es - 1"
  by (simp add: next_cursor_def)

lemma new_cursor: "p_performanceCursor (new_MetricsInstrumentation p) = 0"
  by (simp add: new_MetricsInstrumentation_def Let_def trackNavigator_cursor split: option.splits)

lemma addPerformanceEntries_cursor:
  "p_performanceCursor (fst (addPerformanceEntries p this t))
     = (if gatekeeper p then next_cursor (timeline p) else p_performanceCursor this)"
  by (auto simp add: addPerformanceEntries_def gatekeeper_def timeline_def
        project_entries_cursor split: option.splits)

lemma run_cursors:
  "append_only prev (map fst calls) \<Longrightarrow> p_performanceCursor this \<le> next_cursor prev \<Longrightarrow>
     sorted (map p_performanceCursor (run this calls))
     \<and> (\<forall>m \<in> set (run this calls). p_performanceCursor this \<le> p_performanceCursor m)"
proof (induction calls arbitrary: this prev)
  case Nil
  then show ?case by simp
next
  case (Cons c calls)
  obtain p t where c: "c = (p, t)" by (cases c)
  let ?this' = "fst (addPerformanceEntries p this t)"
  show ?case
  proof (cases "gatekeeper p")
    case True
    with Cons.prems c have pre: "prefix prev (timeline p)"
      and rest: "append_only (timeline p) (map fst calls)"
      by simp_all
    from pre have "length prev \<le> length (timeline p)"
      by (rule prefix_length_le)
    then have le: "next_cursor prev \<le> next_cursor (timeline p)"
      by (simp add: next_cursor_length)
    have cur: "p_performanceCursor ?this' = next_cursor (timeline p)"
      using True by (simp add: addPerformanceEntries_cursor)
    from Cons.IH [OF rest, of ?this'] cur
    have ih: "sorted (map p_performanceCursor (run ?this' calls))"
      "\<forall>m \<in> set (run ?this' calls). p_performanceCursor ?this' \<le> p_performanceCursor m"
      by simp_all
    have "p_performanceCursor this \<le> p_performanceCursor ?this'"
      using Cons.prems(2) le cur by simp
    with ih show ?thesis
      by (auto simp add: c)
  next
    case False
    with Cons.prems c have rest: "append_only prev (map fst calls)"
      by simp
    have cur: "p_performanceCursor ?this' = p_performanceCursor this"
      using False by (simp add: addPerformanceEntries_cursor)
    from Cons.IH [OF rest, of ?this'] cur Cons.prems(2)
    have ih: "sorted (map p_performanceCursor (run ?this' calls))"
      "\<forall>m \<in> set (run ?this' calls). p_performanceCursor ?this' \<le> p_performanceCursor m"
      by simp_all
    with cur show ?thesis
      by (auto simp add: c)
  qed
qed

lemma length_run: "length (run this calls) = Suc (length calls)"
  by (induction calls arbitrary: this) auto

lemma drop_as_indices: "drop n xs = map ((!) xs) [n..<length xs]"
proof -
  have "drop n xs = drop n (map ((!) xs) [0..<length xs])"
    by (simp add: map_nth)
  also have "\<dots> = map ((!) xs) [n..<length xs]"
    by (simp add: drop_map)
  finally show ?thesis .
qed

lemma dispatched_indices_from_cursor:
  "i \<in> set (dispatched_indices p this) \<Longrightarrow> p_performanceCursor this \<le> i"
  by (auto simp add: dispatched_indices_def split: if_splits)

lemma addPerformanceEntries_dispatch:
  assumes "gatekeeper p"
  shows "\<exists>w. global p = Some w
     \<and> addPerformanceEntries p this t
         = finish_entries w (timeline p)
             (fold (forEach_body (location_origin w)
                      (msToSec (to_number (browserPerformanceTimeOrigin p)))
                      (entry_script_src w))
                (map ((!) (timeline p)) (dispatched_indices p this))
                \<lparr>scan_transaction = t, scan_this = this,
                 entryScriptStartTimestamp = None, tracingInitMarkStartTime = None\<rparr>)"
proof -
  from assms obtain w perf es where w: "global p = Some w" "performance w = Some perf"
    "getEntries perf = Some es"
    and call: "addPerformanceEntries p this t
           = project_entries w es (to_number (browserPerformanceTimeOrigin p)) this t"
    using addPerformanceEntries_gatekeeper by blast
  from w have tl: "timeline p = es"
    by (simp add: timeline_def)
  have "map ((!) (timeline p)) (dispatched_indices p this)
          = drop (p_performanceCursor this) (timeline p)"
    using assms by (simp add: dispatched_indices_def drop_as_indices)
  with w call tl show ?thesis
    by (simp add: project_entries_def scan_entries_def)
qed

subsection \<open>The transaction contains its children\<close>

lemma u_startChild_contains:
  assumes "contains_children t"
  shows "contains_children (fst (u_startChild t c))"
proof -
  from assms obtain a where a: "tx_startTimestamp t = Num a"
    by (cases "tx_startTimestamp t") (simp_all add: contains_children_def)
  from assms a have old: "\<forall>c' \<in> set (spans t).
      truthy (startTimestamp c') \<longrightarrow> js_le (Num a) (to_number (startTimestamp c'))"
    by (simp add: contains_children_def)
  show ?thesis
  proof (cases "startTimestamp c")
    case None
    with a old show ?thesis
      by (simp add: contains_children_def u_startChild_def startChild_def)
  next
    case (Some n)
    show ?thesis
    proof (cases n)
      case NaN
      with Some a old show ?thesis
        by (simp add: contains_children_def u_startChild_def startChild_def)
    next
      case (Num v)
      have mono: "js_le (Num v) x" if "js_le (Num a) x" "v < a" for x
        using that by (cases x) simp_all
      from Some Num a old mono show ?thesis
        by (auto simp add: contains_children_def u_startChild_def startChild_def
              js_greater_def)
    qed
  qed
qed

lemma addPerformanceNavigationTiming_contains:
  "contains_children t \<Longrightarrow> contains_children (addPerformanceNavigationTiming t e ev to)"
  by (simp add: addPerformanceNavigationTiming_def Let_def u_startChild_contains)

lemma addRequest_contains:
  "contains_children t \<Longrightarrow> contains_children (addRequest t e to)"
  by (simp add: addRequest_def Let_def u_startChild_contains)

lemma addNavigationSpans_contains:
  "contains_children t \<Longrightarrow> contains_children (addNavigationSpans t e to)"
  by (simp add: addNavigationSpans_def Let_def addRequest_contains
        addPerformanceNavigationTiming_contains)

lemma addMeasureSpans_contains:
  "contains_children t \<Longrightarrow> contains_children (fst (addMeasureSpans t e st d to))"
  by (simp add: addMeasureSpans_def Let_def u_startChild_contains)

lemma addResourceSpans_contains:
  "contains_children t \<Longrightarrow> contains_children (fst (addResourceSpans t e r st d to))"
  by (simp add: addResourceSpans_def Let_def u_startChild_contains)

lemma forEach_body_contains:
  "contains_children (scan_transaction s) \<Longrightarrow>
     contains_children (scan_transaction (forEach_body origin to ess e s))"
  by (simp add: forEach_body_def Let_def split_beta addNavigationSpans_contains
        addMeasureSpans_contains addResourceSpans_contains)

lemma fold_forEach_body_contains:
  "contains_children (scan_transaction s) \<Longrightarrow>
     contains_children (scan_transaction (fold (forEach_body origin to ess) es s))"
  by (induction es arbitrary: s) (simp_all add: forEach_body_contains)

lemma contains_children_set:
  "contains_children (setMeasurements t ms) = contains_children t"
  "contains_children (setContexts t cs) = contains_children t"
  by (simp_all add: contains_children_def setMeasurements_def setContexts_def)

lemma project_entries_contains:
  assumes "contains_children t"
  shows "contains_children (snd (project_entries w es bpto this t))"
proof -
  let ?s = "scan_entries w es (msToSec bpto) this t"
  have s: "contains_children (scan_transaction ?s)"
    using assms by (simp add: scan_entries_def fold_forEach_body_contains)
  then show ?thesis
    by (simp add: project_entries_def finish_entries_def Let_def contains_children_set
          u_startChild_contains split: option.splits)
qed

lemma addPerformanceEntries_contains:
  "contains_children t \<Longrightarrow> contains_children (snd (addPerformanceEntries p this t))"
  by (auto simp add: addPerformanceEntries_def project_entries_contains split: option.splits)

subsection \<open>The two timestamps of the scan\<close>

lemma forEach_body_tracingInit:
  "tracingInitMarkStartTime (forEach_body origin to ess e s)
     = (if tracingInitMarkStartTime s = None \<and> tracing_init_mark to e s
        then Some (js_add to (msToSec (startTime e)))
        else tracingInitMarkStartTime s)"
  by (auto simp add: forEach_body_def tracing_init_mark_def skipped_def Let_def split_beta
        addMeasureSpans_def)

lemma forEach_body_entryScript:
  "entryScriptStartTimestamp (forEach_body origin to ess e s)
     = (if entryScriptStartTimestamp s = None \<and> entry_script_resource origin to ess e s
        then Some (js_add (js_add to (msToSec (startTime e))) (msToSec (duration e)))
        else entryScriptStartTimestamp s)"
  by (auto simp add: forEach_body_def entry_script_resource_def skipped_def Let_def split_beta
        addResourceSpans_def)

text \<open>A slot that only the callback sets, and only while it is unset.\<close>

lemma fold_slot_kept:
  assumes step: "\<And>e s. slot (f e s) = (if slot s = None \<and> sets e s then Some (val e) else slot s)"
  shows "slot s = Some v \<Longrightarrow> slot (fold f es s) = Some v"
  by (induction es arbitrary: s) (simp_all add: step)

lemma fold_slot_unset:
  assumes step: "\<And>e s. slot (f e s) = (if slot s = None \<and> sets e s then Some (val e) else slot s)"
    and "slot s = None"
    and "\<forall>j < length es. \<not> sets (es ! j) (fold f (take j es) s)"
  shows "slot (fold f es s) = None"
  using assms(2,3)
proof (induction es rule: rev_induct)
  case Nil
  then show ?case by simp
next
  case (snoc x xs)
  have "\<forall>j < length xs. \<not> sets (xs ! j) (fold f (take j xs) s)"
  proof (intro allI impI)
    fix j assume j: "j < length xs"
    with snoc.prems(2) have "\<not> sets ((xs @ [x]) ! j) (fold f (take j (xs @ [x])) s)"
      by simp
    with j show "\<not> sets (xs ! j) (fold f (take j xs) s)"
      by (simp add: nth_append)
  qed
  with snoc.IH snoc.prems(1) have unset: "slot (fold f xs s) = None"
    by simp
  have "length xs < length (xs @ [x])"
    by simp
  with snoc.prems(2)
  have "\<not> sets ((xs @ [x]) ! length xs) (fold f (take (length xs) (xs @ [x])) s)"
    by blast
  then have "\<not> sets x (fold f xs s)"
    by simp
  with unset show ?case
    by (simp add: step)
qed

lemma fold_slot_first:
  assumes step: "\<And>e s. slot (f e s) = (if slot s = None \<and> sets e s then Some (val e) else slot s)"
    and "slot s = None"
    and "i < length es"
    and "sets (es ! i) (fold f (take i es) s)"
    and "\<forall>j < i. \<not> sets (es ! j) (fold f (take j es) s)"
  shows "slot (fold f es s) = Some (val (es ! i))"
proof -
  have "\<forall>j < length (take i es). \<not> sets (take i es ! j) (fold f (take j (take i es)) s)"
    using assms(3,5) by (simp add: min_def)
  with step assms(2) have unset: "slot (fold f (take i es) s) = None"
    by (rule fold_slot_unset)
  have es: "es = take i es @ es ! i # drop (Suc i) es"
    using assms(3) by (rule id_take_nth_drop)
  have "slot (f (es ! i) (fold f (take i es) s)) = Some (val (es ! i))"
    using unset assms(4) by (simp add: step)
  with step have "slot (fold f (drop (Suc i) es) (f (es ! i) (fold f (take i es) s)))
                    = Some (val (es ! i))"
    by (rule fold_slot_kept)
  then have "slot (fold f (take i es @ es ! i # drop (Suc i) es) s) = Some (val (es ! i))"
    by simp
  with es show ?thesis
    by simp
qed

text \<open>The scan as it stands when it comes to the entry at position \<open>k\<close>.\<close>

lemma scan_entries_take:
  "fold (forEach_body (location_origin w) to (entry_script_src w))
     (take i (drop (p_performanceCursor this) es))
     \<lparr>scan_transaction = t, scan_this = this,
      entryScriptStartTimestamp = None, tracingInitMarkStartTime = None\<rparr>
   = scan_entries w (take (p_performanceCursor this + i) es) to this t"
  by (simp add: scan_entries_def drop_take)

section \<open>The claims\<close>

subsection \<open>Claim C1: a second call without timeline growth\<close>

text \<open>
  Claim C1 says that a second call of \<^verbatim>\<open>addPerformanceEntries\<close> on the same
  transaction, with no entry appended to the timeline in between, creates no further
  child span. The code does not do that: the cursor is left on the last entry, not
  after it, so the second call scans the last entry again. On a timeline holding the one
  mark \<^verbatim>\<open>sentry-tracing-init\<close>, the first call creates one span and the second
  call creates the same span again.
\<close>

theorem second_call_repeats_last_entry:
  "map description (spans (snd (addPerformanceEntries
      (example_platform [example_entry ''mark'' ''sentry-tracing-init'' 10 0])
      example_instrumentation (example_transaction ''pageload'' 2000))))
     = [''sentry-tracing-init'']
   \<and> map description (spans (snd (addPerformanceEntries
      (example_platform [example_entry ''mark'' ''sentry-tracing-init'' 10 0])
      (fst (addPerformanceEntries
             (example_platform [example_entry ''mark'' ''sentry-tracing-init'' 10 0])
             example_instrumentation (example_transaction ''pageload'' 2000)))
      (snd (addPerformanceEntries
             (example_platform [example_entry ''mark'' ''sentry-tracing-init'' 10 0])
             example_instrumentation (example_transaction ''pageload'' 2000))))))
     = [''sentry-tracing-init'', ''sentry-tracing-init'']"
  by (simp add: model_defs examples)

subsection \<open>Claim C2: the transaction contains its children\<close>

text \<open>
  Claim C2, amended. If the transaction's start is a number at or before the start of
  every child span with a truthy start, it still is after the scan of any entries and
  after any call of \<^verbatim>\<open>addPerformanceEntries\<close>. \<^verbatim>\<open>_startChild\<close> pulls the
  transaction's start back to the child's start when that start is truthy (a number
  other than \<^verbatim>\<open>0\<close> and \<^verbatim>\<open>NaN\<close>) and earlier than the transaction's; in every
  other case the transaction's start stays as it was.
\<close>

theorem transaction_start_contains_children:
  "(contains_children t \<longrightarrow>
      contains_children (scan_transaction
        (fold (forEach_body origin to ess) es
           \<lparr>scan_transaction = t, scan_this = this,
            entryScriptStartTimestamp = None, tracingInitMarkStartTime = None\<rparr>))
      \<and> contains_children (snd (addPerformanceEntries p this t)))
   \<and> (truthy (startTimestamp c)
        \<and> js_less (to_number (startTimestamp c)) (tx_startTimestamp t) \<longrightarrow>
      tx_startTimestamp (fst (u_startChild t c)) = to_number (startTimestamp c))
   \<and> (\<not> (truthy (startTimestamp c)
          \<and> js_less (to_number (startTimestamp c)) (tx_startTimestamp t)) \<longrightarrow>
      tx_startTimestamp (fst (u_startChild t c)) = tx_startTimestamp t)"
proof (intro conjI impI)
  assume "contains_children t"
  then show "contains_children (scan_transaction
        (fold (forEach_body origin to ess) es
           \<lparr>scan_transaction = t, scan_this = this,
            entryScriptStartTimestamp = None, tracingInitMarkStartTime = None\<rparr>))"
    by (simp add: fold_forEach_body_contains)
next
  assume "contains_children t"
  then show "contains_children (snd (addPerformanceEntries p this t))"
    by (rule addPerformanceEntries_contains)
next
  assume "truthy (startTimestamp c)
        \<and> js_less (to_number (startTimestamp c)) (tx_startTimestamp t)"
  then show "tx_startTimestamp (fst (u_startChild t c)) = to_number (startTimestamp c)"
    by (simp add: u_startChild_def startChild_def js_greater_def)
next
  assume "\<not> (truthy (startTimestamp c)
          \<and> js_less (to_number (startTimestamp c)) (tx_startTimestamp t))"
  then show "tx_startTimestamp (fst (u_startChild t c)) = tx_startTimestamp t"
    by (auto simp add: u_startChild_def startChild_def js_greater_def)
qed

text \<open>
  The theorem at a transaction starting at 2000 s: a scan of one mark, a child
  starting at 100 s, which pulls the start back, and a child starting at 3000 s,
  which does not.
\<close>

theorem transaction_start_contains_children_witness:
  "contains_children (example_transaction ''pageload'' 2000)
   \<and> contains_children (snd (addPerformanceEntries
        (example_platform [example_entry ''mark'' ''sentry-tracing-init'' 10 0])
        example_instrumentation (example_transaction ''pageload'' 2000)))
   \<and> truthy (Some (Num 100))
   \<and> js_less (Num 100) (tx_startTimestamp (example_transaction ''pageload'' 2000))
   \<and> tx_startTimestamp (fst (u_startChild (example_transaction ''pageload'' 2000)
        \<lparr>description = ''early'', op = ''mark'', startTimestamp = Some (Num 100),
         endTimestamp = Some (Num 101), data = None\<rparr>)) = Num 100
   \<and> \<not> js_less (Num 3000) (tx_startTimestamp (example_transaction ''pageload'' 2000))
   \<and> tx_startTimestamp (fst (u_startChild (example_transaction ''pageload'' 2000)
        \<lparr>description = ''late'', op = ''mark'', startTimestamp = Some (Num 3000),
         endTimestamp = Some (Num 3001), data = None\<rparr>)) = Num 2000"
proof -
  have c: "contains_children (example_transaction ''pageload'' 2000)"
    by (simp add: contains_children_def examples)
  have l: "js_less (Num 100) (tx_startTimestamp (example_transaction ''pageload'' 2000))"
    "\<not> js_less (Num 3000) (tx_startTimestamp (example_transaction ''pageload'' 2000))"
    by (simp_all add: examples)
  show ?thesis
    using c l
      transaction_start_contains_children
        [where t = "example_transaction ''pageload'' 2000"
           and p = "example_platform [example_entry ''mark'' ''sentry-tracing-init'' 10 0]"
           and this = example_instrumentation
           and c = "\<lparr>description = ''early'', op = ''mark'', startTimestamp = Some (Num 100),
              endTimestamp = Some (Num 101), data = None\<rparr>"]
      transaction_start_contains_children
        [where t = "example_transaction ''pageload'' 2000"
           and p = "example_platform [example_entry ''mark'' ''sentry-tracing-init'' 10 0]"
           and this = example_instrumentation
           and c = "\<lparr>description = ''late'', op = ''mark'', startTimestamp = Some (Num 3000),
              endTimestamp = Some (Num 3001), data = None\<rparr>"]
    by (simp add: example_transaction_def)
qed

text \<open>
  Claim C2 as stated fails for a start timestamp of \<^verbatim>\<open>0\<close>, which is falsy: given to
  \<^verbatim>\<open>_startChild\<close> with a transaction that starts at 5 s, it is earlier than the
  transaction's start, and the transaction's start stays at 5 s.
\<close>

theorem zero_start_not_pulled_back_counterexample:
  "js_less (Num 0) (tx_startTimestamp (example_transaction ''pageload'' 5))
   \<and> tx_startTimestamp (fst (u_startChild (example_transaction ''pageload'' 5)
        \<lparr>description = ''early'', op = ''mark'', startTimestamp = Some (Num 0),
         endTimestamp = Some (Num 1), data = None\<rparr>)) = Num 5"
  by (simp add: u_startChild_def startChild_def examples)

subsection \<open>Claim C3: the cursor\<close>

text \<open>
  Claim C3. The cursor of a new instrumentation is 0. After a call that passes the
  gatekeeper it is \<open>max (length - 1) 0\<close> for the timeline's length. Such a call is the
  \<^verbatim>\<open>forEach\<close> callback run over exactly the entries at the positions from the cursor
  up to the end of the timeline, in order, followed by the part after the scan, which
  dispatches nothing; a call that fails the gatekeeper dispatches nothing. Over any
  sequence of calls on a timeline that only grows, the cursor never decreases, and every
  position dispatched by a call is at or above the cursor as it was after each earlier
  call.
\<close>

theorem cursor_never_decreases:
  "p_performanceCursor (new_MetricsInstrumentation p0) = 0
   \<and> (gatekeeper p \<longrightarrow>
        p_performanceCursor (fst (addPerformanceEntries p this t))
          = nat (max (int (length (timeline p)) - 1) 0)
        \<and> drop (p_performanceCursor this) (timeline p)
          = map ((!) (timeline p)) (dispatched_indices p this)
        \<and> (\<exists>w. global p = Some w
             \<and> addPerformanceEntries p this t
                 = finish_entries w (timeline p)
                     (fold (forEach_body (location_origin w)
                              (msToSec (to_number (browserPerformanceTimeOrigin p)))
                              (entry_script_src w))
                        (map ((!) (timeline p)) (dispatched_indices p this))
                        \<lparr>scan_transaction = t, scan_this = this,
                         entryScriptStartTimestamp = None,
                         tracingInitMarkStartTime = None\<rparr>)))
   \<and> (\<not> gatekeeper p \<longrightarrow>
        dispatched_indices p this = [] \<and> addPerformanceEntries p this t = (this, t))
   \<and> (append_only [] (map fst calls) \<longrightarrow>
        sorted (map p_performanceCursor (run (new_MetricsInstrumentation p0) calls))
        \<and> (\<forall>k < length calls. \<forall>j \<le> k.
              \<forall>i \<in> set (dispatched_indices (fst (calls ! k))
                            (run (new_MetricsInstrumentation p0) calls ! k)).
                p_performanceCursor (run (new_MetricsInstrumentation p0) calls ! j) \<le> i))"
proof (intro conjI impI)
  show "p_performanceCursor (new_MetricsInstrumentation p0) = 0"
    by (rule new_cursor)
next
  assume "gatekeeper p"
  then show "p_performanceCursor (fst (addPerformanceEntries p this t))
          = nat (max (int (length (timeline p)) - 1) 0)"
    by (simp add: addPerformanceEntries_cursor next_cursor_def)
next
  assume "gatekeeper p"
  then show "drop (p_performanceCursor this) (timeline p)
          = map ((!) (timeline p)) (dispatched_indices p this)"
    by (simp add: dispatched_indices_def drop_as_indices)
next
  assume "gatekeeper p"
  then show "\<exists>w. global p = Some w
             \<and> addPerformanceEntries p this t
                 = finish_entries w (timeline p)
                     (fold (forEach_body (location_origin w)
                              (msToSec (to_number (browserPerformanceTimeOrigin p)))
                              (entry_script_src w))
                        (map ((!) (timeline p)) (dispatched_indices p this))
                        \<lparr>scan_transaction = t, scan_this = this,
                         entryScriptStartTimestamp = None,
                         tracingInitMarkStartTime = None\<rparr>)"
    by (rule addPerformanceEntries_dispatch)
next
  assume "\<not> gatekeeper p"
  then show "dispatched_indices p this = []"
    by (simp add: dispatched_indices_def)
next
  assume "\<not> gatekeeper p"
  then show "addPerformanceEntries p this t = (this, t)"
    by (rule addPerformanceEntries_no_gatekeeper)
next
  assume a: "append_only [] (map fst calls)"
  show "sorted (map p_performanceCursor (run (new_MetricsInstrumentation p0) calls))"
    using run_cursors [OF a, of "new_MetricsInstrumentation p0"] by (simp add: new_cursor)
next
  assume a: "append_only [] (map fst calls)"
  let ?ms = "run (new_MetricsInstrumentation p0) calls"
  have s: "sorted (map p_performanceCursor ?ms)"
    using run_cursors [OF a, of "new_MetricsInstrumentation p0"] by (simp add: new_cursor)
  show "\<forall>k < length calls. \<forall>j \<le> k.
              \<forall>i \<in> set (dispatched_indices (fst (calls ! k)) (?ms ! k)).
                p_performanceCursor (?ms ! j) \<le> i"
  proof (intro allI impI ballI)
    fix k j i
    assume k: "k < length calls" and j: "j \<le> k"
      and i: "i \<in> set (dispatched_indices (fst (calls ! k)) (?ms ! k))"
    from k have kl: "k < length (map p_performanceCursor ?ms)"
      by (simp add: length_run)
    from s j kl have "map p_performanceCursor ?ms ! j \<le> map p_performanceCursor ?ms ! k"
      by (simp only: sorted_iff_nth_mono)
    with j kl have "p_performanceCursor (?ms ! j) \<le> p_performanceCursor (?ms ! k)"
      by simp
    also from i have "\<dots> \<le> i"
      by (rule dispatched_indices_from_cursor)
    finally show "p_performanceCursor (?ms ! j) \<le> i" .
  qed
qed

text \<open>
  The theorem at three calls on a growing timeline, the second on a platform without
  the performance API: the cursors are 0, 0, 0 and 2.
\<close>

theorem cursor_never_decreases_witness:
  "gatekeeper (example_platform [example_entry ''mark'' ''sentry-tracing-init'' 10 0,
                                 example_entry ''paint'' ''first-paint'' 234 0])
   \<and> p_performanceCursor (fst (addPerformanceEntries
        (example_platform [example_entry ''mark'' ''sentry-tracing-init'' 10 0,
                           example_entry ''paint'' ''first-paint'' 234 0])
        example_instrumentation (example_transaction ''pageload'' 2000))) = 1
   \<and> append_only [] (map fst example_calls)
   \<and> sorted (map p_performanceCursor (run (new_MetricsInstrumentation no_platform) example_calls))
   \<and> 2 < length example_calls
   \<and> 1 \<in> set (dispatched_indices (fst (example_calls ! 2))
                 (run (new_MetricsInstrumentation no_platform) example_calls ! 2))
   \<and> p_performanceCursor (run (new_MetricsInstrumentation no_platform) example_calls ! 1) \<le> 1"
proof -
  let ?p = "example_platform [example_entry ''mark'' ''sentry-tracing-init'' 10 0,
                              example_entry ''paint'' ''first-paint'' 234 0]"
  let ?ms = "run (new_MetricsInstrumentation no_platform) example_calls"
  have g: "gatekeeper ?p"
    by (simp add: gatekeeper_def examples)
  have a: "append_only [] (map fst example_calls)"
    by (simp add: example_calls_def gatekeeper_def timeline_def examples)
  have l: "2 < length example_calls"
    by (simp add: example_calls_def)
  have r2: "p_performanceCursor (?ms ! 2) = 0"
    by (simp add: example_calls_def numeral_2_eq_2 addPerformanceEntries_cursor
          gatekeeper_def timeline_def next_cursor_def new_cursor examples)
  have d: "1 \<in> set (dispatched_indices (fst (example_calls ! 2)) (?ms ! 2))"
    using r2 by (simp add: dispatched_indices_def)
       (simp add: example_calls_def gatekeeper_def timeline_def examples)
  have n: "length (timeline ?p) = 2"
    by (simp add: timeline_def examples)
  from cursor_never_decreases
         [of no_platform ?p example_instrumentation "example_transaction ''pageload'' 2000"
             example_calls]
  have after: "gatekeeper ?p \<longrightarrow>
        p_performanceCursor (fst (addPerformanceEntries ?p example_instrumentation
          (example_transaction ''pageload'' 2000)))
          = nat (max (int (length (timeline ?p)) - 1) 0)"
    and calls: "append_only [] (map fst example_calls) \<longrightarrow>
        sorted (map p_performanceCursor ?ms)
        \<and> (\<forall>k < length example_calls. \<forall>j \<le> k.
              \<forall>i \<in> set (dispatched_indices (fst (example_calls ! k)) (?ms ! k)).
                p_performanceCursor (?ms ! j) \<le> i)"
    by blast+
  from after g n have c: "p_performanceCursor (fst (addPerformanceEntries ?p
        example_instrumentation (example_transaction ''pageload'' 2000))) = 1"
    by simp
  from calls a have s: "sorted (map p_performanceCursor ?ms)"
    and never: "\<forall>k < length example_calls. \<forall>j \<le> k.
              \<forall>i \<in> set (dispatched_indices (fst (example_calls ! k)) (?ms ! k)).
                p_performanceCursor (?ms ! j) \<le> i"
    by blast+
  from never l d have "p_performanceCursor (?ms ! 1) \<le> 1"
    by force
  with g c a s l d show ?thesis
    by blast
qed

subsection \<open>Claim C4: the spans of a navigation entry\<close>




subsection \<open>Claim C5: the gatekeeper\<close>

text \<open>
  Claim C5. When the platform lacks the performance timeline (no global object, no
  \<^verbatim>\<open>performance\<close> object, no \<^verbatim>\<open>getEntries\<close> function or no truthy time origin),
  \<^verbatim>\<open>addPerformanceEntries\<close> returns with the instrumentation (cursor, measurements,
  browser context) and the transaction (spans, measurements, contexts) exactly as they
  were. The function has no throwing path, so its model has no error value.
\<close>

theorem gatekeeper_no_effect:
  "\<not> gatekeeper p \<Longrightarrow> addPerformanceEntries p this transaction = (this, transaction)"
  by (auto simp add: gatekeeper_def addPerformanceEntries_def split: option.splits)

theorem gatekeeper_no_effect_witness:
  "\<not> gatekeeper no_platform
   \<and> addPerformanceEntries no_platform example_instrumentation
        (example_transaction ''pageload'' 1000)
      = (example_instrumentation, example_transaction ''pageload'' 1000)"
  using gatekeeper_no_effect
          [of no_platform example_instrumentation "example_transaction ''pageload'' 1000"]
  by (simp add: gatekeeper_def no_platform_def)

subsection \<open>Claim C6: the LCP and FID callbacks\<close>

text \<open>
  Claim C6. A firing of the LCP or FID callback with an empty entry list leaves the
  instrumentation as it was. Otherwise it writes exactly two measurements, from the last
  entry of the list alone: the metric's value under \<^verbatim>\<open>lcp\<close> (\<^verbatim>\<open>fid\<close>), and
  under \<^verbatim>\<open>mark.lcp\<close> (\<^verbatim>\<open>mark.fid\<close>) the sum of the time origin and of the entry's
  start time, each converted to seconds before the addition, as the code computes it.
\<close>

theorem vital_callbacks_write_last_entry:
  "(metric_entries m = [] \<longrightarrow>
      snd (trackLCP_callback perf m this) = this \<and> snd (trackFID_callback perf m this) = this)
   \<and> (metric_entries m \<noteq> [] \<longrightarrow>
      snd (trackLCP_callback perf m this)
        = this\<lparr>p_measurements := (p_measurements this)
                 (''lcp'' \<mapsto> metric_value m,
                  ''mark.lcp'' \<mapsto> js_add (msToSec (to_number (timeOrigin perf)))
                                   (msToSec (startTime (last (metric_entries m)))))\<rparr>
      \<and> snd (trackFID_callback perf m this)
        = this\<lparr>p_measurements := (p_measurements this)
                 (''fid'' \<mapsto> metric_value m,
                  ''mark.fid'' \<mapsto> js_add (msToSec (to_number (timeOrigin perf)))
                                   (msToSec (startTime (last (metric_entries m)))))\<rparr>)"
  by (cases "metric_entries m")
     (simp_all add: trackLCP_callback_def trackFID_callback_def)

theorem vital_callbacks_write_last_entry_witness:
  "snd (trackLCP_callback \<lparr>getEntries = None, timeOrigin = Some (Num 1000000)\<rparr>
          \<lparr>metric_value = Num 2500, metric_entries = []\<rparr> example_instrumentation)
     = example_instrumentation
   \<and> p_measurements
       (snd (trackFID_callback \<lparr>getEntries = None, timeOrigin = Some (Num 1000000)\<rparr>
          \<lparr>metric_value = Num 16,
           metric_entries = [example_entry ''first-input'' ''mousedown'' 100 8,
                             example_entry ''first-input'' ''keydown'' 300 8]\<rparr>
          example_instrumentation)) ''mark.fid'' = Some (Num (10003 / 10))"
  using vital_callbacks_write_last_entry
          [of "\<lparr>metric_value = Num 2500, metric_entries = []\<rparr>"
              "\<lparr>getEntries = None, timeOrigin = Some (Num 1000000)\<rparr>" example_instrumentation]
        vital_callbacks_write_last_entry
          [of "\<lparr>metric_value = Num 16,
           metric_entries = [example_entry ''first-input'' ''mousedown'' 100 8,
                             example_entry ''first-input'' ''keydown'' 300 8]\<rparr>"
              "\<lparr>getEntries = None, timeOrigin = Some (Num 1000000)\<rparr>" example_instrumentation]
  by (simp add: example_entry_def)

subsection \<open>Claim C7: resources fetched by XHR or fetch\<close>

text \<open>
  Claim C7. For a resource entry whose initiator type is \<^verbatim>\<open>xmlhttprequest\<close> or
  \<^verbatim>\<open>fetch\<close>, \<^verbatim>\<open>addResourceSpans\<close> returns no end timestamp and leaves the
  transaction as it was; dispatched from the scan, such an entry leaves the whole scan
  state as it was.
\<close>

theorem addResourceSpans_xhr_fetch_no_span:
  "initiatorType e = Some ''xmlhttprequest'' \<or> initiatorType e = Some ''fetch'' \<Longrightarrow>
     addResourceSpans transaction e resourceName startTime' duration' timeOrigin'
       = (transaction, None)
     \<and> (entryType e = ''resource'' \<longrightarrow>
          forEach_body origin timeOrigin' entryScriptSrc e s = s)"
  by (auto simp add: addResourceSpans_def forEach_body_def Let_def)

theorem addResourceSpans_xhr_fetch_no_span_witness:
  "initiatorType example_fetch = Some ''fetch''
   \<and> addResourceSpans (example_transaction ''pageload'' 2000) example_fetch
        ''/app.js'' (Num (1 / 200)) (Num (1 / 500)) (Num 1000)
      = (example_transaction ''pageload'' 2000, None)
   \<and> entryType example_fetch = ''resource''
   \<and> forEach_body ''https://example.com'' (Num 1000) (Some ''https://example.com/app.js'')
        example_fetch example_scan = example_scan"
  using addResourceSpans_xhr_fetch_no_span
          [of example_fetch "example_transaction ''pageload'' 2000" "''/app.js''"
              "Num (1 / 200)" "Num (1 / 500)" "Num 1000" "''https://example.com''"
              "Some ''https://example.com/app.js''" example_scan]
  by (simp add: example_fetch_def example_entry_def)

subsection \<open>Claim C8: the navigation timing example\<close>



subsection \<open>Claim C9: measurements and contexts are for page loads\<close>

text \<open>
  Claim C9, amended. When the gatekeeper passes, \<^verbatim>\<open>addPerformanceEntries\<close> attaches
  the measurement set and the browser context to the transaction if its operation is
  \<^verbatim>\<open>pageload\<close>; for every other operation, and whenever the gatekeeper fails, the
  transaction's measurements and contexts are left as they were.
\<close>

theorem measurements_attached_for_pageload_only:
  "(gatekeeper p \<and> tx_op t = ''pageload'' \<longrightarrow>
      tx_measurements (snd (addPerformanceEntries p this t))
        = p_measurements (fst (addPerformanceEntries p this t))
      \<and> tx_contexts (snd (addPerformanceEntries p this t))
        = (tx_contexts t)
            (''browser'' \<mapsto> p_browserContext (fst (addPerformanceEntries p this t))))
   \<and> (\<not> gatekeeper p \<or> tx_op t \<noteq> ''pageload'' \<longrightarrow>
      tx_measurements (snd (addPerformanceEntries p this t)) = tx_measurements t
      \<and> tx_contexts (snd (addPerformanceEntries p this t)) = tx_contexts t)"
proof (cases "gatekeeper p")
  case True
  then obtain w es where
    "addPerformanceEntries p this t
       = project_entries w es (to_number (browserPerformanceTimeOrigin p)) this t"
    using addPerformanceEntries_gatekeeper by blast
  then show ?thesis
    using True project_entries_pageload [of t w es] project_entries_other [of t w es]
    by simp
next
  case False
  then show ?thesis
    by (simp add: addPerformanceEntries_no_gatekeeper)
qed

theorem measurements_attached_for_pageload_only_witness:
  "gatekeeper (example_platform [])
   \<and> tx_measurements (snd (addPerformanceEntries (example_platform []) example_instrumentation
        (example_transaction ''pageload'' 1000))) ''lcp'' = Some (Num 2500)
   \<and> tx_measurements (snd (addPerformanceEntries (example_platform []) example_instrumentation
        (example_transaction ''navigation'' 1000))) ''lcp'' = None
   \<and> \<not> gatekeeper no_platform
   \<and> tx_measurements (snd (addPerformanceEntries no_platform example_instrumentation
        (example_transaction ''pageload'' 1000))) ''lcp'' = None"
proof -
  have g: "gatekeeper (example_platform [])" "\<not> gatekeeper no_platform"
    by (simp_all add: gatekeeper_def examples)
  have m: "p_measurements (fst (addPerformanceEntries (example_platform [])
             example_instrumentation (example_transaction ''pageload'' 1000))) ''lcp''
           = Some (Num 2500)"
    by (simp add: addPerformanceEntries_def project_entries_def finish_entries_def
          scan_entries_def
          trackNavigator_def setContexts_def setMeasurements_def next_cursor_def examples)
  show ?thesis
    using g m
      measurements_attached_for_pageload_only
        [of "example_platform []" "example_transaction ''pageload'' 1000"
            example_instrumentation]
      measurements_attached_for_pageload_only
        [of "example_platform []" "example_transaction ''navigation'' 1000"
            example_instrumentation]
      measurements_attached_for_pageload_only
        [of no_platform "example_transaction ''pageload'' 1000" example_instrumentation]
    by (simp add: example_transaction_def)
qed

text \<open>
  Claim C9 as stated fails where the gatekeeper fails: a \<^verbatim>\<open>pageload\<close> transaction
  then gets neither the measurements nor the browser context.
\<close>

theorem pageload_without_performance_api_counterexample:
  "tx_op (example_transaction ''pageload'' 1000) = ''pageload''
   \<and> p_measurements (fst (addPerformanceEntries no_platform example_instrumentation
        (example_transaction ''pageload'' 1000))) ''lcp'' = Some (Num 2500)
   \<and> tx_measurements (snd (addPerformanceEntries no_platform example_instrumentation
        (example_transaction ''pageload'' 1000))) ''lcp'' = None
   \<and> tx_contexts (snd (addPerformanceEntries no_platform example_instrumentation
        (example_transaction ''pageload'' 1000))) ''browser'' = None"
  by (simp add: addPerformanceEntries_def examples)

subsection \<open>Claim C10: the first matching entries decide the evaluation span\<close>

text \<open>
  Claim C10, amended. Take a scan of \<^verbatim>\<open>addPerformanceEntries\<close> over the timeline
  \<open>es\<close>; when it comes to the entry at position \<open>k\<close>, it stands as the scan of the
  timeline cut before \<open>k\<close>. If the entry at \<open>k\<close> is the first scanned entry that is
  dispatched as a mark, paint or measure entry named \<^verbatim>\<open>sentry-tracing-init\<close>, the
  tracing-init timestamp after the scan is that entry's absolute start, whatever entries
  follow; if the scan has no such entry, the timestamp stays unset. If the entry at \<open>k\<close>
  is the first scanned entry that is dispatched as a resource entry whose name matches
  the entry script's path and whose initiator type is neither \<^verbatim>\<open>xmlhttprequest\<close> nor
  \<^verbatim>\<open>fetch\<close>, the entry-script end timestamp after the scan is that entry's absolute
  end, whatever entries follow; if the scan has no such entry, the timestamp stays unset.
  The \<^verbatim>\<open>evaluation\<close> span is added after the scan exactly when both timestamps are
  set, and runs from the entry-script end timestamp to the tracing-init timestamp.
\<close>

theorem first_match_decides:
  "(p_performanceCursor this \<le> k \<and> k < length es
      \<and> tracing_init_mark to (es ! k) (scan_entries w (take k es) to this t)
      \<and> (\<forall>j < k. p_performanceCursor this \<le> j \<longrightarrow>
            \<not> tracing_init_mark to (es ! j) (scan_entries w (take j es) to this t)) \<longrightarrow>
    tracingInitMarkStartTime (scan_entries w es to this t)
      = Some (js_add to (msToSec (startTime (es ! k)))))
   \<and> ((\<forall>j < length es. p_performanceCursor this \<le> j \<longrightarrow>
            \<not> tracing_init_mark to (es ! j) (scan_entries w (take j es) to this t)) \<longrightarrow>
    tracingInitMarkStartTime (scan_entries w es to this t) = None)
   \<and> (p_performanceCursor this \<le> k \<and> k < length es
      \<and> entry_script_resource (location_origin w) to (entry_script_src w) (es ! k)
            (scan_entries w (take k es) to this t)
      \<and> (\<forall>j < k. p_performanceCursor this \<le> j \<longrightarrow>
            \<not> entry_script_resource (location_origin w) to (entry_script_src w) (es ! j)
                 (scan_entries w (take j es) to this t)) \<longrightarrow>
    entryScriptStartTimestamp (scan_entries w es to this t)
      = Some (js_add (js_add to (msToSec (startTime (es ! k)))) (msToSec (duration (es ! k)))))
   \<and> ((\<forall>j < length es. p_performanceCursor this \<le> j \<longrightarrow>
            \<not> entry_script_resource (location_origin w) to (entry_script_src w) (es ! j)
                 (scan_entries w (take j es) to this t)) \<longrightarrow>
    entryScriptStartTimestamp (scan_entries w es to this t) = None)
   \<and> spans (snd (project_entries w es bpto this t))
       = spans (scan_transaction (scan_entries w es (msToSec bpto) this t))
         @ (case entryScriptStartTimestamp (scan_entries w es (msToSec bpto) this t) of
              None \<Rightarrow> []
            | Some script_end \<Rightarrow>
                (case tracingInitMarkStartTime (scan_entries w es (msToSec bpto) this t) of
                   None \<Rightarrow> []
                 | Some init_start \<Rightarrow>
                     [\<lparr>description = ''evaluation'', op = ''script'',
                       startTimestamp = Some script_end, endTimestamp = Some init_start,
                       data = None\<rparr>]))"
proof -
  let ?c = "p_performanceCursor this"
  let ?f = "forEach_body (location_origin w) to (entry_script_src w)"
  let ?xs = "drop ?c es"
  let ?s0 = "\<lparr>scan_transaction = t, scan_this = this,
              entryScriptStartTimestamp = None, tracingInitMarkStartTime = None\<rparr>"
  have scan: "scan_entries w es to this t = fold ?f ?xs ?s0"
    by (simp add: scan_entries_def)
  have before: "fold ?f (take i ?xs) ?s0 = scan_entries w (take (?c + i) es) to this t" for i
    by (rule scan_entries_take)
  have nth: "?xs ! i = es ! (?c + i)" if "?c + i < length es" for i
    using that by simp
  have unset: "\<forall>i < length ?xs. \<not> sets (?xs ! i) (fold ?f (take i ?xs) ?s0)"
    if "\<forall>j < length es. ?c \<le> j \<longrightarrow> \<not> sets (es ! j) (scan_entries w (take j es) to this t)"
    for sets
  proof (intro allI impI)
    fix i assume "i < length ?xs"
    then have i: "?c + i < length es" by simp
    with that have "\<not> sets (es ! (?c + i)) (scan_entries w (take (?c + i) es) to this t)"
      by simp
    with i show "\<not> sets (?xs ! i) (fold ?f (take i ?xs) ?s0)"
      by (simp add: before)
  qed
  have first: "i < length ?xs \<and> sets (?xs ! i) (fold ?f (take i ?xs) ?s0)
        \<and> (\<forall>j < i. \<not> sets (?xs ! j) (fold ?f (take j ?xs) ?s0))"
    if "?c \<le> k" "k < length es" "sets (es ! k) (scan_entries w (take k es) to this t)"
      "\<forall>j < k. ?c \<le> j \<longrightarrow> \<not> sets (es ! j) (scan_entries w (take j es) to this t)"
      "i = k - ?c"
    for sets i
  proof (intro conjI allI impI)
    from that show "i < length ?xs" by simp
    from that have k: "?c + i = k" by simp
    with that(2,3) show "sets (?xs ! i) (fold ?f (take i ?xs) ?s0)"
      by (simp add: before)
    fix j assume "j < i"
    with k have j: "?c + j < k" "?c + j < length es"
      using that(2) by simp_all
    with that(4) have "\<not> sets (es ! (?c + j)) (scan_entries w (take (?c + j) es) to this t)"
      by simp
    with j show "\<not> sets (?xs ! j) (fold ?f (take j ?xs) ?s0)"
      by (simp add: before)
  qed
  show ?thesis
  proof (intro conjI impI)
    assume a: "?c \<le> k \<and> k < length es
      \<and> tracing_init_mark to (es ! k) (scan_entries w (take k es) to this t)
      \<and> (\<forall>j < k. ?c \<le> j \<longrightarrow>
            \<not> tracing_init_mark to (es ! j) (scan_entries w (take j es) to this t))"
    then have f: "k - ?c < length ?xs"
      "tracing_init_mark to (?xs ! (k - ?c)) (fold ?f (take (k - ?c) ?xs) ?s0)"
      "\<forall>j < k - ?c. \<not> tracing_init_mark to (?xs ! j) (fold ?f (take j ?xs) ?s0)"
      using first [of "tracing_init_mark to" "k - ?c"] by simp_all
    have "tracingInitMarkStartTime (fold ?f ?xs ?s0)
            = Some (js_add to (msToSec (startTime (?xs ! (k - ?c)))))"
      by (rule fold_slot_first [where sets = "tracing_init_mark to"
            and val = "\<lambda>e. js_add to (msToSec (startTime e))", OF _ _ f])
         (simp_all add: forEach_body_tracingInit)
    with a show "tracingInitMarkStartTime (scan_entries w es to this t)
      = Some (js_add to (msToSec (startTime (es ! k))))"
      by (simp add: scan)
  next
    assume "\<forall>j < length es. ?c \<le> j \<longrightarrow>
            \<not> tracing_init_mark to (es ! j) (scan_entries w (take j es) to this t)"
    then have u: "\<forall>i < length ?xs.
        \<not> tracing_init_mark to (?xs ! i) (fold ?f (take i ?xs) ?s0)"
      by (rule unset)
    have "tracingInitMarkStartTime (fold ?f ?xs ?s0) = None"
      by (rule fold_slot_unset [where sets = "tracing_init_mark to"
            and val = "\<lambda>e. js_add to (msToSec (startTime e))", OF _ _ u])
         (simp_all add: forEach_body_tracingInit)
    then show "tracingInitMarkStartTime (scan_entries w es to this t) = None"
      by (simp add: scan)
  next
    let ?sets = "entry_script_resource (location_origin w) to (entry_script_src w)"
    assume a: "?c \<le> k \<and> k < length es
      \<and> ?sets (es ! k) (scan_entries w (take k es) to this t)
      \<and> (\<forall>j < k. ?c \<le> j \<longrightarrow> \<not> ?sets (es ! j) (scan_entries w (take j es) to this t))"
    then have f: "k - ?c < length ?xs"
      "?sets (?xs ! (k - ?c)) (fold ?f (take (k - ?c) ?xs) ?s0)"
      "\<forall>j < k - ?c. \<not> ?sets (?xs ! j) (fold ?f (take j ?xs) ?s0)"
      using first [of ?sets "k - ?c"] by simp_all
    have "entryScriptStartTimestamp (fold ?f ?xs ?s0)
            = Some (js_add (js_add to (msToSec (startTime (?xs ! (k - ?c)))))
                      (msToSec (duration (?xs ! (k - ?c)))))"
      by (rule fold_slot_first [where sets = ?sets
            and val = "\<lambda>e. js_add (js_add to (msToSec (startTime e))) (msToSec (duration e))",
            OF _ _ f])
         (simp_all add: forEach_body_entryScript)
    with a show "entryScriptStartTimestamp (scan_entries w es to this t)
      = Some (js_add (js_add to (msToSec (startTime (es ! k)))) (msToSec (duration (es ! k))))"
      by (simp add: scan)
  next
    let ?sets = "entry_script_resource (location_origin w) to (entry_script_src w)"
    assume "\<forall>j < length es. ?c \<le> j \<longrightarrow>
            \<not> ?sets (es ! j) (scan_entries w (take j es) to this t)"
    then have u: "\<forall>i < length ?xs. \<not> ?sets (?xs ! i) (fold ?f (take i ?xs) ?s0)"
      by (rule unset)
    have "entryScriptStartTimestamp (fold ?f ?xs ?s0) = None"
      by (rule fold_slot_unset [where sets = ?sets
            and val = "\<lambda>e. js_add (js_add to (msToSec (startTime e))) (msToSec (duration e))",
            OF _ _ u])
         (simp_all add: forEach_body_entryScript)
    then show "entryScriptStartTimestamp (scan_entries w es to this t) = None"
      by (simp add: scan)
  next
    show "spans (snd (project_entries w es bpto this t))
       = spans (scan_transaction (scan_entries w es (msToSec bpto) this t))
         @ (case entryScriptStartTimestamp (scan_entries w es (msToSec bpto) this t) of
              None \<Rightarrow> []
            | Some script_end \<Rightarrow>
                (case tracingInitMarkStartTime (scan_entries w es (msToSec bpto) this t) of
                   None \<Rightarrow> []
                 | Some init_start \<Rightarrow>
                     [\<lparr>description = ''evaluation'', op = ''script'',
                       startTimestamp = Some script_end, endTimestamp = Some init_start,
                       data = None\<rparr>]))"
      by (rule project_entries_spans)
  qed
qed

text \<open>
  The theorem at the example page: of two marks after a resource the first decides the
  tracing-init timestamp, and no entry-script end timestamp is set; of two script
  resources after a matching resource fetched by \<^verbatim>\<open>fetch\<close> the first decides the
  entry-script end timestamp, and no tracing-init timestamp is set.
\<close>

theorem first_match_decides_witness:
  "tracingInitMarkStartTime
     (scan_entries (example_window []) example_marks (Num 1000) example_instrumentation
        (example_transaction ''pageload'' 2000)) = Some (Num (50001 / 50))
   \<and> entryScriptStartTimestamp
     (scan_entries (example_window []) example_resources (Num 1000) example_instrumentation
        (example_transaction ''pageload'' 2000)) = Some (Num (200003 / 200))
   \<and> tracingInitMarkStartTime
     (scan_entries (example_window []) example_resources (Num 1000) example_instrumentation
        (example_transaction ''pageload'' 2000)) = None
   \<and> entryScriptStartTimestamp
     (scan_entries (example_window []) example_marks (Num 1000) example_instrumentation
        (example_transaction ''pageload'' 2000)) = None"
proof -
  let ?w = "example_window []"
  let ?t = "example_transaction ''pageload'' 2000"
  let ?scan = "\<lambda>es. scan_entries ?w es (Num 1000) example_instrumentation ?t"
  have c: "p_performanceCursor example_instrumentation = 0"
    by (simp add: example_instrumentation_def)
  have mark: "tracing_init_mark (Num 1000) (example_marks ! 1) (?scan (take 1 example_marks))"
    "\<not> tracing_init_mark (Num 1000) (example_marks ! 0) (?scan (take 0 example_marks))"
    by (simp_all add: tracing_init_mark_def skipped_def example_marks_def example_fetch_def
          scan_entries_def forEach_body_def addResourceSpans_def Let_def examples)
  have script: "entry_script_resource (location_origin ?w) (Num 1000) (entry_script_src ?w)
                  (example_resources ! 1) (?scan (take 1 example_resources))"
    "\<not> entry_script_resource (location_origin ?w) (Num 1000) (entry_script_src ?w)
         (example_resources ! 0) (?scan (take 0 example_resources))"
    by (simp_all add: entry_script_resource_def skipped_def example_resources_def
          example_fetch_def example_script_def entry_script_src_def
          scan_entries_def forEach_body_def addResourceSpans_def Let_def examples)
  have no_mark: "\<forall>j < length example_resources. p_performanceCursor example_instrumentation \<le> j
      \<longrightarrow> \<not> tracing_init_mark (Num 1000) (example_resources ! j)
            (?scan (take j example_resources))"
    by (simp add: tracing_init_mark_def example_resources_def example_fetch_def
          example_script_def example_entry_def All_less_Suc numeral_3_eq_3 nth_Cons')
  have no_script: "\<forall>j < length example_marks. p_performanceCursor example_instrumentation \<le> j
      \<longrightarrow> \<not> entry_script_resource (location_origin ?w) (Num 1000) (entry_script_src ?w)
            (example_marks ! j) (?scan (take j example_marks))"
    by (simp add: entry_script_resource_def example_marks_def example_fetch_def
          example_entry_def All_less_Suc numeral_3_eq_3 nth_Cons')
  have len: "1 < length example_marks" "1 < length example_resources"
    by (simp_all add: example_marks_def example_resources_def)
  have v: "startTime (example_marks ! 1) = Num 20" "startTime (example_resources ! 1) = Num 10"
    "duration (example_resources ! 1) = Num 5"
    by (simp_all add: example_marks_def example_resources_def example_script_def
          example_entry_def)
  show ?thesis
    using c mark script no_mark no_script len v
      first_match_decides
        [where w = ?w and this = example_instrumentation and t = ?t and to = "Num 1000"
           and es = example_marks and k = 1]
      first_match_decides
        [where w = ?w and this = example_instrumentation and t = ?t and to = "Num 1000"
           and es = example_resources and k = 1]
    by simp
qed

text \<open>
  Claim C10 as stated fails when the first resource entry matching the entry script's
  path was fetched by \<^verbatim>\<open>fetch\<close>: it ends at 1000.007 s, yet the \<^verbatim>\<open>evaluation\<close>
  span starts at 1000.015 s, where the second matching entry ends.
\<close>

theorem evaluation_from_second_match_counterexample:
  "entryType example_fetch = ''resource''
   \<and> js_indexOf (or_empty (entry_script_src (example_window [])))
        (js_replace (name example_fetch) (location_origin (example_window [])) []) > - 1
   \<and> js_add (js_add (Num 1000) (msToSec (startTime example_fetch)))
        (msToSec (duration example_fetch)) = Num (1000007 / 1000)
   \<and> spans (snd (addPerformanceEntries
        (example_platform [example_fetch, example_script,
           example_entry ''mark'' ''sentry-tracing-init'' 20 0])
        example_instrumentation (example_transaction ''pageload'' 2000))) ! 2
      = \<lparr>description = ''evaluation'', op = ''script'',
         startTimestamp = Some (Num (200003 / 200)), endTimestamp = Some (Num (50001 / 50)),
         data = None\<rparr>"
  by (simp add: model_defs examples example_fetch_def example_script_def)

end
